theory Spec2Isabelle
  imports Main
begin

section \<open>Package transport: interceptors (transport/interceptor.go)\<close>

text \<open>
  A Go call either returns or panics.  A panic is the left summand of the result; the
  only panic the code of this file raises by itself is the run-time error of calling a
  method on a nil interface value or calling a nil function value.
\<close>

datatype panic = NilDereference | OtherPanic string

text \<open>
  The type parameters: \<open>'c\<close> is \<open>context.Context\<close>, \<open>'q\<close> is \<open>*Request\<close>, \<open>'s\<close> is
  \<open>ResponseWriter\<close>, \<open>'e\<close> the non-nil values of \<open>error\<close> (so \<open>'e option\<close> is Go's
  \<open>error\<close>, with \<open>None\<close> for nil), and \<open>'w\<close> the state of everything a call can read
  or write: the response sink, logs, counters.  A call takes the state and gives back the
  outcome and the state it leaves.
\<close>

type_synonym ('e, 'w) call = "'w \<Rightarrow> (panic + 'e option) \<times> 'w"

text \<open>
  \<open>Handler\<close> and \<open>Interceptor\<close> are interfaces of one method.  A value of such an
  interface is nil (\<open>None\<close>) or carries the method \<open>Handle\<close> of its dynamic type.
\<close>

type_synonym ('c, 'q, 's, 'e, 'w) HandleMethod =
  "'c \<Rightarrow> 'q \<Rightarrow> 's \<Rightarrow> ('e, 'w) call"

type_synonym ('c, 'q, 's, 'e, 'w) Handler =
  "('c, 'q, 's, 'e, 'w) HandleMethod option"

type_synonym ('c, 'q, 's, 'e, 'w) InterceptMethod =
  "'c \<Rightarrow> 'q \<Rightarrow> 's \<Rightarrow> ('c, 'q, 's, 'e, 'w) Handler \<Rightarrow> ('e, 'w) call"

type_synonym ('c, 'q, 's, 'e, 'w) Interceptor =
  "('c, 'q, 's, 'e, 'w) InterceptMethod option"

text \<open>The method call \<open>h.Handle(ctx, req, resw)\<close> on a \<open>Handler\<close> value \<open>h\<close>.\<close>

definition Handler_Handle ::
  "('c, 'q, 's, 'e, 'w) Handler \<Rightarrow> ('c, 'q, 's, 'e, 'w) HandleMethod" where
  "Handler_Handle h ctx req resw w =
     (case h of
        None \<Rightarrow> (Inl NilDereference, w)
      | Some m \<Rightarrow> m ctx req resw w)"

text \<open>The method call \<open>i.Handle(ctx, req, resw, h)\<close> on an \<open>Interceptor\<close> value \<open>i\<close>.\<close>

definition Interceptor_Handle ::
  "('c, 'q, 's, 'e, 'w) Interceptor \<Rightarrow> ('c, 'q, 's, 'e, 'w) InterceptMethod" where
  "Interceptor_Handle i ctx req resw h w =
     (case i of
        None \<Rightarrow> (Inl NilDereference, w)
      | Some m \<Rightarrow> m ctx req resw h w)"

text \<open>
  \<^verbatim>\<open>type interceptedHandler struct { h Handler; i Interceptor }\<close>
  (the fields are \<open>ih_h\<close> and \<open>ih_i\<close> here) and its method
  \<^verbatim>\<open>return h.i.Handle(ctx, req, resw, h.h)\<close>.
\<close>

record ('c, 'q, 's, 'e, 'w) interceptedHandler =
  ih_h :: "('c, 'q, 's, 'e, 'w) Handler"
  ih_i :: "('c, 'q, 's, 'e, 'w) Interceptor"

definition interceptedHandler_Handle ::
  "('c, 'q, 's, 'e, 'w) interceptedHandler \<Rightarrow> ('c, 'q, 's, 'e, 'w) HandleMethod" where
  "interceptedHandler_Handle x ctx req resw =
     Interceptor_Handle (ih_i x) ctx req resw (ih_h x)"

text \<open>
  \<^verbatim>\<open>func (nopInterceptor) Handle(ctx, req, resw, handler) error {
      return handler.Handle(ctx, req, resw) }\<close>
  and the package variable \<open>NopInterceptor\<close>, the interface value holding
  \<open>nopInterceptor{}\<close>.
\<close>

definition nopInterceptor_Handle :: "('c, 'q, 's, 'e, 'w) InterceptMethod" where
  "nopInterceptor_Handle ctx req resw handler = Handler_Handle handler ctx req resw"

definition NopInterceptor :: "('c, 'q, 's, 'e, 'w) Interceptor" where
  "NopInterceptor = Some nopInterceptor_Handle"

text \<open>
  \<^verbatim>\<open>func ApplyInterceptor(h Handler, i Interceptor) Handler {
      if i == nil { return h }
      return interceptedHandler{h: h, i: i} }\<close>
  The struct returned is converted to the interface \<open>Handler\<close>: a non-nil value whose
  method is \<open>interceptedHandler.Handle\<close>.
\<close>

definition ApplyInterceptor ::
  "('c, 'q, 's, 'e, 'w) Handler \<Rightarrow> ('c, 'q, 's, 'e, 'w) Interceptor
     \<Rightarrow> ('c, 'q, 's, 'e, 'w) Handler" where
  "ApplyInterceptor h i =
     (case i of
        None \<Rightarrow> h
      | Some _ \<Rightarrow> Some (interceptedHandler_Handle \<lparr>ih_h = h, ih_i = i\<rparr>))"

text \<open>
  \<^verbatim>\<open>type InterceptorFunc func(context.Context, *Request, ResponseWriter, Handler) error\<close>
  A value of a function type is nil or a function; \<open>call_func\<close> is the call
  \<open>f(ctx, req, resw, h)\<close>, which panics on a nil function.  The method of
  \<open>InterceptorFunc\<close> is \<^verbatim>\<open>return f(ctx, req, resw, h)\<close>, and the conversion
  \<open>InterceptorFunc(f)\<close> used as an \<open>Interceptor\<close> is a non-nil interface value also when
  \<open>f\<close> is nil.
\<close>

type_synonym ('c, 'q, 's, 'e, 'w) func =
  "('c, 'q, 's, 'e, 'w) InterceptMethod option"

definition call_func ::
  "('c, 'q, 's, 'e, 'w) func \<Rightarrow> ('c, 'q, 's, 'e, 'w) InterceptMethod" where
  "call_func f ctx req resw h w =
     (case f of
        None \<Rightarrow> (Inl NilDereference, w)
      | Some g \<Rightarrow> g ctx req resw h w)"

definition InterceptorFunc_Handle ::
  "('c, 'q, 's, 'e, 'w) func \<Rightarrow> ('c, 'q, 's, 'e, 'w) InterceptMethod" where
  "InterceptorFunc_Handle f ctx req resw h = call_func f ctx req resw h"

definition InterceptorFunc ::
  "('c, 'q, 's, 'e, 'w) func \<Rightarrow> ('c, 'q, 's, 'e, 'w) Interceptor" where
  "InterceptorFunc f = Some (InterceptorFunc_Handle f)"

subsection \<open>Probes: the handlers and interceptors the properties speak about\<close>

text \<open>
  The properties of composition are stated with a recording handler, interceptors that
  log their entry and exit, an interceptor that never calls the next handler and one that
  calls it twice.  The state they run on holds the shared ordered log \<open>events\<close> and,
  in \<open>inner\<close>, everything else (what the handler's own body reads and writes).
\<close>

datatype ('c, 'q, 's) event =
    is_Enter: Enter nat
  | is_Exit: Exit nat
  | is_Called: Called 'c 'q 's

record ('c, 'q, 's, 'u) world =
  events :: "('c, 'q, 's) event list"
  inner :: 'u

definition emit ::
  "('c, 'q, 's) event \<Rightarrow> ('c, 'q, 's, 'u) world \<Rightarrow> ('c, 'q, 's, 'u) world" where
  "emit ev w = w\<lparr>events := events w @ [ev]\<rparr>"

text \<open>A call that works on \<open>inner\<close> alone and leaves the log as it is.\<close>

definition onInner :: "('e, 'u) call \<Rightarrow> ('e, ('c, 'q, 's, 'u) world) call" where
  "onInner body w = (case body (inner w) of (r, u) \<Rightarrow> (r, w\<lparr>inner := u\<rparr>))"

text \<open>
  The number of calls of the recording handler that the log holds: the call counter on H.
\<close>

definition callCount :: "('c, 'q, 's, 'u) world \<Rightarrow> nat" where
  "callCount w = length (filter is_Called (events w))"

text \<open>
  The recording handler: it logs the call with the arguments it received, then runs its
  body.
  \<^verbatim>\<open>func (p probe) Handle(ctx, req, resw) error {
      log = append(log, Called{ctx, req, resw}); return p.body(ctx, req, resw) }\<close>
\<close>

definition probeHandler ::
  "('c \<Rightarrow> 'q \<Rightarrow> 's \<Rightarrow> ('e, 'u) call)
     \<Rightarrow> ('c, 'q, 's, 'e, ('c, 'q, 's, 'u) world) Handler" where
  "probeHandler body =
     Some (\<lambda>ctx req resw w. onInner (body ctx req resw) (emit (Called ctx req resw) w))"

text \<open>
  The pass-through interceptor with label \<open>k\<close>:
  \<^verbatim>\<open>InterceptorFunc(func(ctx, req, resw, h) error {
      log = append(log, Enter{k}); err := h.Handle(ctx, req, resw)
      log = append(log, Exit{k}); return err })\<close>
  A panic of \<open>h.Handle\<close> leaves the function before the exit is logged.
\<close>

definition tracer :: "nat \<Rightarrow> ('c, 'q, 's, 'e, ('c, 'q, 's, 'u) world) Interceptor" where
  "tracer k =
     InterceptorFunc (Some (\<lambda>ctx req resw h w.
       case Handler_Handle h ctx req resw (emit (Enter k) w) of
         (Inl p, w') \<Rightarrow> (Inl p, w')
       | (Inr err, w') \<Rightarrow> (Inr err, emit (Exit k) w')))"

text \<open>
  An interceptor that never calls the next handler: its function does not use \<open>h\<close>, and
  what it returns is the result \<open>g\<close> makes up.
  \<^verbatim>\<open>InterceptorFunc(func(ctx, req, resw, h) error { return g(ctx, req, resw) })\<close>
\<close>

definition shortCircuit ::
  "('c, 'q, 's, 'e, 'w) HandleMethod \<Rightarrow> ('c, 'q, 's, 'e, 'w) Interceptor" where
  "shortCircuit g = InterceptorFunc (Some (\<lambda>ctx req resw h. g ctx req resw))"

text \<open>
  An interceptor that calls the next handler twice with the arguments it received and
  propagates the last result:
  \<^verbatim>\<open>InterceptorFunc(func(ctx, req, resw, h) error {
      _ = h.Handle(ctx, req, resw); return h.Handle(ctx, req, resw) })\<close>
\<close>

definition callTwice :: "('c, 'q, 's, 'e, 'w) Interceptor" where
  "callTwice =
     InterceptorFunc (Some (\<lambda>ctx req resw h w.
       case Handler_Handle h ctx req resw w of
         (Inl p, w1) \<Rightarrow> (Inl p, w1)
       | (Inr _, w1) \<Rightarrow> Handler_Handle h ctx req resw w1))"

text \<open>
  The body of an interceptor that answers nil at once and touches nothing:
  \<^verbatim>\<open>func(ctx, req, resw, h) error { return nil }\<close> is \<open>shortCircuit answerNil\<close>.
\<close>

definition answerNil :: "('c, 'q, 's, 'e, 'w) HandleMethod" where
  "answerNil ctx req resw w = (Inr None, w)"

section \<open>Package client: the behavior recorder (crossdock/client/behavior.go)\<close>






















section \<open>Properties of the interceptors\<close>

subsection \<open>Calls through the composed handler\<close>

lemma Handle_ApplyInterceptor_Some:
  "Handler_Handle (ApplyInterceptor h (Some m)) ctx req resw w = m ctx req resw h w"
  by (simp add: ApplyInterceptor_def Handler_Handle_def interceptedHandler_Handle_def
      Interceptor_Handle_def)

lemma Handle_Nop:
  "Handler_Handle (ApplyInterceptor h NopInterceptor) ctx req resw w
     = Handler_Handle h ctx req resw w"
  by (simp add: NopInterceptor_def Handle_ApplyInterceptor_Some nopInterceptor_Handle_def)

lemma Handle_InterceptorFunc:
  "Handler_Handle (ApplyInterceptor h (InterceptorFunc (Some f))) ctx req resw w
     = f ctx req resw h w"
  by (simp add: InterceptorFunc_def Handle_ApplyInterceptor_Some InterceptorFunc_Handle_def
      call_func_def)

lemma Handle_probe:
  "Handler_Handle (probeHandler body) ctx req resw w
     = onInner (body ctx req resw) (emit (Called ctx req resw) w)"
  by (simp add: probeHandler_def Handler_Handle_def)

lemma events_onInner: "events (snd (onInner b w)) = events w"
  by (simp add: onInner_def split: prod.splits)

lemma Handle_tracer:
  "Handler_Handle (ApplyInterceptor h (tracer k)) ctx req resw w
     = (case Handler_Handle h ctx req resw (emit (Enter k) w) of
          (Inl p, w') \<Rightarrow> (Inl p, w')
        | (Inr err, w') \<Rightarrow> (Inr err, emit (Exit k) w'))"
  unfolding tracer_def by (rule Handle_InterceptorFunc)

lemma Handle_shortCircuit:
  "Handler_Handle (ApplyInterceptor h (shortCircuit g)) ctx req resw w = g ctx req resw w"
  unfolding shortCircuit_def by (rule Handle_InterceptorFunc)

lemma Handle_callTwice:
  "Handler_Handle (ApplyInterceptor h callTwice) ctx req resw w
     = (case Handler_Handle h ctx req resw w of
          (Inl p, w1) \<Rightarrow> (Inl p, w1)
        | (Inr _, w1) \<Rightarrow> Handler_Handle h ctx req resw w1)"
  unfolding callTwice_def by (rule Handle_InterceptorFunc)

text \<open>
  C1.  For every handler \<open>h\<close> (nil included) and every interceptor \<open>i\<close> that is not nil,
  calling \<open>Handle(ctx, req, resw)\<close> on \<open>ApplyInterceptor(h, i)\<close> gives exactly what
  \<open>i.Handle(ctx, req, resw, h)\<close> gives: the same outcome and the same state left behind.
\<close>

theorem ApplyInterceptor_applies:
  assumes "i \<noteq> None"
  shows "Handler_Handle (ApplyInterceptor h i) ctx req resw w
           = Interceptor_Handle i ctx req resw h w"
proof -
  from assms obtain m where m: "i = Some m" by (cases i) simp_all
  have "Handler_Handle (ApplyInterceptor h (Some m)) ctx req resw w = m ctx req resw h w"
    by (rule Handle_ApplyInterceptor_Some)
  with m show ?thesis by (simp add: Interceptor_Handle_def)
qed

theorem ApplyInterceptor_applies_witness:
  "Handler_Handle
     (ApplyInterceptor
        (Some (\<lambda>ctx req resw w. (Inr (Some ''refused''), w + ctx)))
        (Some (\<lambda>ctx req resw h w. Handler_Handle h (ctx + 1) req resw (w * 2))))
     (1::nat) (2::nat) (3::nat) (10::nat)
   = (Inr (Some ''refused''), 22)"
proof -
  let ?h = "Some (\<lambda>ctx req resw w. (Inr (Some ''refused''), w + ctx))
              :: (nat, nat, nat, string, nat) Handler"
  let ?i = "Some (\<lambda>ctx req resw h w. Handler_Handle h (ctx + 1) req resw (w * 2))
              :: (nat, nat, nat, string, nat) Interceptor"
  have nonnil: "?i \<noteq> None" by simp
  have "Handler_Handle (ApplyInterceptor ?h ?i) 1 2 3 10 = Interceptor_Handle ?i 1 2 3 ?h 10"
    by (rule ApplyInterceptor_applies [OF nonnil])
  also have "\<dots> = (Inr (Some ''refused''), 22)"
    by (simp add: Interceptor_Handle_def Handler_Handle_def)
  finally show ?thesis .
qed

text \<open>
  C2.  For every handler \<open>h\<close>, \<open>ApplyInterceptor(h, nil)\<close> is \<open>h\<close> itself, the same
  value and not a wrapper around it, so a call on it does what the call on \<open>h\<close> does.
\<close>

theorem ApplyInterceptor_nil:
  "ApplyInterceptor h None = h
   \<and> Handler_Handle (ApplyInterceptor h None) ctx req resw w = Handler_Handle h ctx req resw w"
  by (simp add: ApplyInterceptor_def)


text \<open>
  C4.  Compose the pass-through interceptor \<open>I2\<close> (label \<open>ki\<close>) around the recording
  handler H and then the pass-through interceptor \<open>I1\<close> (label \<open>ko\<close>) around the result.
  When the body of H returns, a call on the composed handler returns what H returned and
  appends to the log, in this order: I1 enters, I2 enters, H is called, I2 exits, I1 exits.
\<close>

theorem composition_order:
  assumes "body ctx req resw (inner w) = (Inr err, u)"
  shows "Handler_Handle
           (ApplyInterceptor (ApplyInterceptor (probeHandler body) (tracer ki)) (tracer ko))
           ctx req resw w
         = (Inr err,
            \<lparr>events = events w @ [Enter ko, Enter ki, Called ctx req resw, Exit ki, Exit ko],
             inner = u\<rparr>)"
  using assms by (simp add: Handle_tracer Handle_probe onInner_def emit_def)

theorem composition_order_witness:
  "Handler_Handle
     (ApplyInterceptor
        (ApplyInterceptor (probeHandler (\<lambda>ctx req resw u. (Inr None, u + req))) (tracer 2))
        (tracer 1))
     (7::nat) (8::nat) (9::nat) \<lparr>events = [], inner = (0::nat)\<rparr>
   = (Inr (None :: string option),
      \<lparr>events = [Enter 1, Enter 2, Called 7 8 9, Exit 2, Exit 1], inner = 8\<rparr>)"
  using composition_order
    [where body = "\<lambda>ctx req resw u. (Inr None, u + req)" and ctx = "7::nat"
       and req = "8::nat" and resw = "9::nat"
       and w = "\<lparr>events = [], inner = 0::nat\<rparr>" and err = "None :: string option"
       and u = 8 and ko = 1 and ki = 2]
  by simp

text \<open>
  C5.  For every interceptor \<open>i\<close>, handler \<open>h\<close> and arguments, the method of the
  composed handler \<open>interceptedHandler{h, i}\<close> gives exactly what \<open>i.Handle\<close> gives, and so
  the error (or nil, or panic) that comes out of \<open>ApplyInterceptor(h, i)\<close> for a non-nil
  \<open>i\<close> is the one that \<open>i.Handle\<close> returned: the composition neither drops nor replaces
  nor changes it.
\<close>

theorem composed_result_is_interceptor_result:
  "Handler_Handle (Some (interceptedHandler_Handle \<lparr>ih_h = h, ih_i = i\<rparr>)) ctx req resw w
     = Interceptor_Handle i ctx req resw h w
   \<and> (i \<noteq> None \<longrightarrow>
        fst (Handler_Handle (ApplyInterceptor h i) ctx req resw w)
          = fst (Interceptor_Handle i ctx req resw h w))"
proof -
  have struct: "Handler_Handle (Some (interceptedHandler_Handle \<lparr>ih_h = h, ih_i = i\<rparr>))
                  ctx req resw w = Interceptor_Handle i ctx req resw h w"
    by (simp add: Handler_Handle_def interceptedHandler_Handle_def)
  have applied: "fst (Handler_Handle (ApplyInterceptor h i) ctx req resw w)
                   = fst (Interceptor_Handle i ctx req resw h w)" if "i \<noteq> None"
  proof -
    from that obtain m where m: "i = Some m" by (cases i) simp_all
    have "Handler_Handle (ApplyInterceptor h (Some m)) ctx req resw w = m ctx req resw h w"
      by (rule Handle_ApplyInterceptor_Some)
    with m show ?thesis by (simp add: Interceptor_Handle_def)
  qed
  from struct applied show ?thesis by blast
qed

theorem composed_result_is_interceptor_result_witness:
  "fst (Handler_Handle
          (ApplyInterceptor
             (Some (\<lambda>ctx req resw w. (Inr (Some ''inner failure''), Suc w)))
             (Some (\<lambda>ctx req resw h w.
                case Handler_Handle h ctx req resw w of
                  (Inr (Some e), w') \<Rightarrow> (Inr (Some (''wrapped: '' @ e)), w')
                | r \<Rightarrow> r)))
          (1::nat) (2::nat) (3::nat) (0::nat))
   = Inr (Some ''wrapped: inner failure'')"
proof -
  let ?h = "Some (\<lambda>ctx req resw w. (Inr (Some ''inner failure''), Suc w))
              :: (nat, nat, nat, string, nat) Handler"
  let ?i = "Some (\<lambda>ctx req resw h w.
                case Handler_Handle h ctx req resw w of
                  (Inr (Some e), w') \<Rightarrow> (Inr (Some (''wrapped: '' @ e)), w')
                | r \<Rightarrow> r)
              :: (nat, nat, nat, string, nat) Interceptor"
  have nonnil: "?i \<noteq> None" by simp
  have "fst (Handler_Handle (ApplyInterceptor ?h ?i) 1 2 3 0)
          = fst (Interceptor_Handle ?i 1 2 3 ?h 0)"
    using composed_result_is_interceptor_result [of ?h ?i 1 2 3 0] nonnil by blast
  also have "\<dots> = Inr (Some ''wrapped: inner failure'')"
    by (simp add: Interceptor_Handle_def Handler_Handle_def)
  finally show ?thesis .
qed

text \<open>
  C6.  For every handler H and every interceptor that never calls the next handler, a call
  on the composed handler returns what the interceptor made up, whatever H is.  With the
  recording handler as H and an interceptor that does not write the log itself, the log
  and the call count of H are after the call what they were before it: H was not called.
\<close>

theorem short_circuit_skips_handler:
  "Handler_Handle (ApplyInterceptor h (shortCircuit g)) ctx req resw w = g ctx req resw w
   \<and> events (snd (Handler_Handle
                    (ApplyInterceptor (probeHandler body)
                       (shortCircuit (\<lambda>ctx req resw. onInner (gi ctx req resw))))
                    ctx req resw v))
     = events v
   \<and> callCount (snd (Handler_Handle
                       (ApplyInterceptor (probeHandler body)
                          (shortCircuit (\<lambda>ctx req resw. onInner (gi ctx req resw))))
                       ctx req resw v))
     = callCount v"
  by (simp add: Handle_shortCircuit events_onInner callCount_def)

text \<open>
  C7.  For every recording handler H and the interceptor that calls the next handler twice
  with the request it received and propagates the last result: when the first call of H
  returns, a call on the composed handler calls H exactly twice with that request (the log
  gains these two calls and the call count grows by two), and it returns the result of the
  second call.
\<close>

theorem call_twice_runs_handler_twice:
  assumes "body ctx req resw (inner w) = (Inr e1, u1)"
    and "body ctx req resw u1 = (r2, u2)"
  shows "Handler_Handle (ApplyInterceptor (probeHandler body) callTwice) ctx req resw w
           = (r2, \<lparr>events = events w @ [Called ctx req resw, Called ctx req resw],
                   inner = u2\<rparr>)
         \<and> callCount (snd (Handler_Handle (ApplyInterceptor (probeHandler body) callTwice)
                             ctx req resw w))
           = callCount w + 2"
  using assms by (simp add: Handle_callTwice Handle_probe onInner_def emit_def callCount_def)

theorem call_twice_runs_handler_twice_witness:
  "Handler_Handle
     (ApplyInterceptor
        (probeHandler (\<lambda>ctx req resw u.
           (if u = 0 then Inr (Some ''busy'') else Inr None, Suc u)))
        callTwice)
     (7::nat) (8::nat) (9::nat) \<lparr>events = [], inner = (0::nat)\<rparr>
   = (Inr (None :: string option), \<lparr>events = [Called 7 8 9, Called 7 8 9], inner = 2\<rparr>)"
  using call_twice_runs_handler_twice
    [where body = "\<lambda>ctx req resw u. (if u = 0 then Inr (Some ''busy'') else Inr None, Suc u)"
       and ctx = "7::nat" and req = "8::nat" and resw = "9::nat"
       and w = "\<lparr>events = [], inner = 0::nat\<rparr>" and ?e1.0 = "Some ''busy''"
       and ?u1.0 = 1 and ?r2.0 = "Inr None" and ?u2.0 = 2]
  by simp

text \<open>
  C8, as the specification has it: composing with a nil handler fails at composition or at
  the first call, and no call completes as a successful no-op.  It does not hold:
  \<open>ApplyInterceptor\<close> gives a handler for the nil handler and the interceptor that answers
  nil at once, and the first call on it returns nil and leaves the state as it was.
\<close>

theorem nil_handler_counterexample:
  "ApplyInterceptor (None :: (nat, nat, nat, string, nat) Handler) (shortCircuit answerNil)
     \<noteq> None
   \<and> Handler_Handle
       (ApplyInterceptor (None :: (nat, nat, nat, string, nat) Handler)
          (shortCircuit answerNil))
       1 2 3 0
     = (Inr None, 0)"
  by (simp add: Handle_shortCircuit answerNil_def)
     (simp add: ApplyInterceptor_def shortCircuit_def InterceptorFunc_def)

text \<open>
  C8, amended.  \<open>ApplyInterceptor\<close> does not look at the handler, so nothing fails at
  composition.  A call on the composition of the nil handler with no interceptor, or with
  \<open>NopInterceptor\<close>, panics with a nil dereference and leaves the state as it was; with
  any other interceptor the call hands the nil handler to it and is what the interceptor
  then does.
\<close>

theorem nil_handler_reaches_interceptor:
  "Handler_Handle (ApplyInterceptor None None) ctx req resw w = (Inl NilDereference, w)
   \<and> Handler_Handle (ApplyInterceptor None NopInterceptor) ctx req resw w
       = (Inl NilDereference, w)
   \<and> Handler_Handle (ApplyInterceptor None (Some m)) ctx req resw w = m ctx req resw None w"
  by (simp add: Handle_Nop Handle_ApplyInterceptor_Some)
     (simp add: ApplyInterceptor_def Handler_Handle_def)


section \<open>Properties of the behavior recorder\<close>











end
